theory Spec2Isabelle
  imports Complex_Main "HOL-Library.Char_ord" "HOL-Library.List_Lexorder"
begin

section \<open>Wind installation report: data model\<close>

text \<open>
  The two Python files build a pandas DataFrame of wind installations, clean two of its
  columns and derive a handful of aggregates from it.

  A float64 cell is modelled as \<open>real option\<close>: \<open>None\<close> is NaN, the missing marker of
  pandas, and \<open>Some r\<close> is a finite number. The rounding of IEEE double arithmetic and
  the two infinities are not part of this model: sums and quotients are exact.
  A string cell of an object column is \<open>string option\<close>, \<open>None\<close> again the missing cell.
  A DataFrame is the list of its rows, in index order.
\<close>

type_synonym float64 = "real option"

text \<open>
  The columns both files read: \<open>Project_Name\<close>, \<open>Facility\<close>, \<open>State\<close>,
  \<open>Installed_Capacity\<close> and \<open>Number_of_Units\<close>. The type of the capacity cell is a
  parameter: a float64 in a cleaned frame, a raw cell in the frame that \<open>read_csv\<close>
  returns.
\<close>

record 'c installation =
  Project_Name :: "string option"
  Facility :: "string option"
  State :: "string option"
  Installed_Capacity :: 'c
  Number_of_Units :: float64

text \<open>
  The frame of \<open>main.py\<close> has a \<open>Coordinates\<close> column, to which cleaning adds
  \<open>Latitude\<close> and \<open>Longitude\<close>; the frame of \<open>script.py\<close> has a \<open>Turbine_ID\<close>.
\<close>

record 'c csv_row = "'c installation" +
  Coordinates :: "string option"

record located = "float64 csv_row" +
  Latitude :: float64
  Longitude :: float64

record turbine = "float64 installation" +
  Turbine_ID :: string

datatype error = KeyError | ValueError | AttributeError

subsection \<open>Series reductions of pandas\<close>

text \<open>\<open>Series.dropna()\<close>: the present values of a column, in order.\<close>

fun dropna :: "'a option list \<Rightarrow> 'a list" where
  "dropna [] = []"
| "dropna (None # xs) = dropna xs"
| "dropna (Some x # xs) = x # dropna xs"

text \<open>\<open>Series.count()\<close>: the number of present values.\<close>

definition count_series :: "'a option list \<Rightarrow> nat" where
  "count_series xs = length (dropna xs)"

text \<open>\<open>Series.sum()\<close> with its default \<open>skipna=True, min_count=0\<close>: the sum of the
  present values, 0 when there is none.\<close>

definition sum_series :: "float64 list \<Rightarrow> real" where
  "sum_series xs = sum_list (dropna xs)"

text \<open>\<open>Series.mean()\<close> with its default \<open>skipna=True\<close>: the sum of the present values
  over their number, NaN when there is none.\<close>

definition mean_series :: "float64 list \<Rightarrow> float64" where
  "mean_series xs =
     (if count_series xs = 0 then None
      else Some (sum_series xs / real (count_series xs)))"

text \<open>\<open>Series.nunique()\<close> with its default \<open>dropna=True\<close>.\<close>

definition nunique :: "'a option list \<Rightarrow> nat" where
  "nunique xs = length (remdups (dropna xs))"

text \<open>
  \<open>Series.value_counts()\<close> with its defaults \<open>sort=True, ascending=False, dropna=True\<close>:
  one entry per distinct present value with the number of its occurrences, largest
  count first. Entries are built in order of first appearance and sorted stably.
\<close>

definition first_seen :: "'a list \<Rightarrow> 'a list" where
  "first_seen xs = rev (remdups (rev xs))"

definition value_counts :: "'a option list \<Rightarrow> ('a \<times> nat) list" where
  "value_counts xs =
     sort_key (\<lambda>p. - int (snd p))
       (map (\<lambda>k. (k, count_list (dropna xs) k)) (first_seen (dropna xs)))"

text \<open>\<open>Series.head(n)\<close>.\<close>

definition head :: "nat \<Rightarrow> 'a list \<Rightarrow> 'a list" where
  "head n xs = take n xs"

subsection \<open>The aggregate summary of \<open>main.py\<close>\<close>

text \<open>
  The dictionary returned by \<open>generate_statistical_summary\<close>. Its entry
  \<open>capacity_stats\<close> (\<open>describe()\<close>: quartiles and standard deviation) is read by no
  other function of the program and is left out.
\<close>

record stats_summary =
  total_projects :: nat
  total_states :: nat
  total_capacity :: real
  avg_capacity :: float64
  state_counts :: "(string \<times> nat) list"
  facility_counts :: "(string \<times> nat) list"

definition generate_statistical_summary :: "((float64, 'a) installation_scheme) list \<Rightarrow> stats_summary" where
  "generate_statistical_summary df =
     \<lparr> total_projects = length df,
       total_states = nunique (map State df),
       total_capacity = sum_series (map Installed_Capacity df),
       avg_capacity = mean_series (map Installed_Capacity df),
       state_counts = value_counts (map State df),
       facility_counts = value_counts (map Facility df) \<rparr>"

subsection \<open>Grouped aggregates\<close>

text \<open>
  \<open>df.groupby(key)[column].agg(['sum', 'mean', 'count'])\<close> with the defaults
  \<open>sort=True, dropna=True\<close> of \<open>groupby\<close>: one row per distinct present key, in
  ascending key order; rows of the frame whose key is missing belong to no group. Within
  a group the sum and the mean skip missing values and \<open>count\<close> counts the present
  ones.
\<close>

record group_stats =
  g_sum :: real
  g_mean :: float64
  g_count :: nat

definition group_rows :: "('r \<Rightarrow> string option) \<Rightarrow> string \<Rightarrow> 'r list \<Rightarrow> 'r list" where
  "group_rows key k df = filter (\<lambda>r. key r = Some k) df"

definition group_keys :: "('r \<Rightarrow> string option) \<Rightarrow> 'r list \<Rightarrow> string list" where
  "group_keys key df = sort (remdups (dropna (map key df)))"

definition agg :: "float64 list \<Rightarrow> group_stats" where
  "agg xs = \<lparr> g_sum = sum_series xs, g_mean = mean_series xs, g_count = count_series xs \<rparr>"

definition groupby_agg ::
  "('r \<Rightarrow> string option) \<Rightarrow> ('r \<Rightarrow> float64) \<Rightarrow> 'r list \<Rightarrow> (string \<times> group_stats) list" where
  "groupby_agg key col df =
     map (\<lambda>k. (k, agg (map col (group_rows key k df)))) (group_keys key df)"

subsection \<open>Formatting with \<open>:.2f\<close>\<close>

text \<open>
  Python formats a float with two decimals by rounding the value to the nearest
  hundredth, ties to the even neighbour; a negative value keeps its sign even when it
  rounds to zero, and NaN prints as \<open>nan\<close>.
\<close>

definition round_half_even :: "real \<Rightarrow> int" where
  "round_half_even x =
     (let f = \<lfloor>x\<rfloor>; d = x - of_int f
      in if d < 1 / 2 then f else if 1 / 2 < d then f + 1
         else if even f then f else f + 1)"

definition digit_char :: "nat \<Rightarrow> char" where
  "digit_char d = char_of (48 + d)"

fun string_of_nat :: "nat \<Rightarrow> string" where
  "string_of_nat n =
     (if n < 10 then [digit_char n] else string_of_nat (n div 10) @ [digit_char (n mod 10)])"

definition fmt2 :: "float64 \<Rightarrow> string" where
  "fmt2 v =
     (case v of
        None \<Rightarrow> ''nan''
      | Some r \<Rightarrow>
          (let n = nat (round_half_even (\<bar>r\<bar> * 100))
           in (if r < 0 then ''-'' else []) @ string_of_nat (n div 100) @ ''.''
              @ [digit_char (n mod 100 div 10), digit_char (n mod 10)]))"

section \<open>\<open>script.py\<close>: the literal table and its summary\<close>

text \<open>The dictionary \<open>data\<close>, column by column, and the frame built from it.\<close>

definition data_Turbine_ID :: "string list" where
  "data_Turbine_ID = [''T001'', ''T002'', ''T003'', ''T004'', ''T005'', ''T006'', ''T007'', ''T008'']"

definition data_Project_Name :: "string list" where
  "data_Project_Name = map (\<lambda>i. ''Project_'' @ string_of_nat i) [1..<9]"

definition data_Facility :: "string list" where
  "data_Facility = [''Community Center'', ''Technical College'', ''K-12 School'', ''Community Center'',
     ''Community Center'', ''Technical College'', ''K-12 School'', ''K-12 School'']"

definition data_State :: "string list" where
  "data_State = [''OK'', ''NY'', ''KS'', ''IA'', ''OK'', ''IA'', ''TX'', ''KS'']"

definition data_Installed_Capacity :: "real list" where
  "data_Installed_Capacity =
     [1733693 / 1000000, 1374243 / 1000000, 1174680 / 1000000, 1426943 / 1000000,
      1522472 / 1000000, 294048 / 1000000, 987171 / 1000000, 681184 / 1000000]"

definition data_Number_of_Units :: "real list" where
  "data_Number_of_Units = [1, 4, 4, 2, 4, 4, 2, 3]"

definition df_script :: "turbine list" where
  "df_script =
     map (\<lambda>(t, p, f, s, c, u).
            \<lparr> Project_Name = Some p, Facility = Some f, State = Some s,
              Installed_Capacity = Some c, Number_of_Units = Some u, Turbine_ID = t \<rparr>)
       (zip data_Turbine_ID (zip data_Project_Name (zip data_Facility
          (zip data_State (zip data_Installed_Capacity data_Number_of_Units)))))"

text \<open>
  The dictionary \<open>summary\<close> of \<open>analyze_wind_data\<close>. The four plots the function draws
  before it do not enter the summary.
\<close>

record wind_summary =
  Total_Projects :: nat
  States_Count :: nat
  Total_Capacity :: real
  Average_Capacity :: float64
  State_Distribution :: "(string \<times> group_stats) list"
  Facility_Distribution :: "(string \<times> group_stats) list"

definition analyze_wind_data :: "((float64, 'a) installation_scheme) list \<Rightarrow> wind_summary" where
  "analyze_wind_data df =
     \<lparr> Total_Projects = length df,
       States_Count = nunique (map State df),
       Total_Capacity = sum_series (map Installed_Capacity df),
       Average_Capacity = mean_series (map Installed_Capacity df),
       State_Distribution = groupby_agg State Installed_Capacity df,
       Facility_Distribution = groupby_agg Facility Installed_Capacity df \<rparr>"

text \<open>The four lines the script prints from the summary, the two capacities with \<open>:.2f\<close>.\<close>

definition printed_summary :: "wind_summary \<Rightarrow> nat \<times> nat \<times> string \<times> string" where
  "printed_summary s =
     (Total_Projects s, States_Count s, fmt2 (Some (Total_Capacity s)), fmt2 (Average_Capacity s))"

section \<open>\<open>main.py\<close>: cleaning\<close>

subsection \<open>Reading a float from a string\<close>












subsection \<open>The frame returned by \<open>read_csv\<close>\<close>



subsection \<open>Splitting the coordinate column\<close>






fun sequence :: "(error + 'a) list \<Rightarrow> error + 'a list" where
  "sequence [] = Inr []"
| "sequence (Inl e # rs) = Inl e"
| "sequence (Inr v # rs) = (case sequence rs of Inl e \<Rightarrow> Inl e | Inr vs \<Rightarrow> Inr (v # vs))"






section \<open>\<open>main.py\<close>: the map\<close>

text \<open>
  A circle marker with the three values its popup text is built from. folium checks the
  location of the map and of every marker when it is constructed: a location with a NaN
  raises ValueError. (Releases of folium without that check add the marker as it is; in
  both cases the loop of \<open>create_map\<close> constructs a marker for every row.)
\<close>

record marker =
  location :: "real \<times> real"
  popup_project :: "string option"
  popup_facility :: "string option"
  popup_capacity :: float64

record folium_map =
  centre :: "real \<times> real"
  zoom_start :: nat
  markers :: "marker list"

definition validate_location :: "float64 \<times> float64 \<Rightarrow> error + (real \<times> real)" where
  "validate_location l =
     (case l of
        (Some la, Some lo) \<Rightarrow> Inr (la, lo)
      | _ \<Rightarrow> Inl ValueError)"

text \<open>One call of \<open>folium.CircleMarker\<close> in the loop body, for the row it is given.\<close>

definition circle_marker :: "located \<Rightarrow> error + marker" where
  "circle_marker row =
     (case validate_location (Latitude row, Longitude row) of
        Inl e \<Rightarrow> Inl e
      | Inr l \<Rightarrow> Inr \<lparr> location = l, popup_project = Project_Name row,
                       popup_facility = Facility row,
                       popup_capacity = Installed_Capacity row \<rparr>)"

text \<open>The loop \<open>for idx, row in df.iterrows()\<close>: every row, in order, until the first
  exception.\<close>

fun add_markers :: "located list \<Rightarrow> error + marker list" where
  "add_markers [] = Inr []"
| "add_markers (row # df) =
     (case circle_marker row of
        Inl e \<Rightarrow> Inl e
      | Inr m \<Rightarrow> (case add_markers df of Inl e \<Rightarrow> Inl e | Inr ms \<Rightarrow> Inr (m # ms)))"

definition create_map :: "located list \<Rightarrow> error + folium_map" where
  "create_map df =
     (case validate_location (mean_series (map Latitude df), mean_series (map Longitude df)) of
        Inl e \<Rightarrow> Inl e
      | Inr c \<Rightarrow>
          (case add_markers df of
             Inl e \<Rightarrow> Inl e
           | Inr ms \<Rightarrow> Inr \<lparr> centre = c, zoom_start = 4, markers = ms \<rparr>))"

section \<open>\<open>main.py\<close>: the analysis\<close>

text \<open>
  \<open>scipy.stats.pearsonr(x, y)[0]\<close>, as SciPy 1.9 computes it: ValueError when the
  lengths differ or are below 2; NaN (with a warning) when an input is constant, tested
  as \<open>(x == x[0]).all()\<close>, which a NaN in first place never satisfies; for two
  observations the product of the signs of the two differences; otherwise the norms of
  the centred inputs are taken by \<open>scipy.linalg.norm\<close>, which raises ValueError on a
  NaN, and the coefficient is clipped to the interval from -1 to 1.
\<close>

definition is_constant :: "float64 list \<Rightarrow> bool" where
  "is_constant xs =
     (case xs of
        [] \<Rightarrow> True
      | None # _ \<Rightarrow> False
      | Some v # _ \<Rightarrow> list_all (\<lambda>x. x = Some v) xs)"

definition centred :: "real list \<Rightarrow> real list" where
  "centred xs = map (\<lambda>x. x - sum_list xs / real (length xs)) xs"

definition norm2 :: "real list \<Rightarrow> real" where
  "norm2 xs = sqrt (sum_list (map (\<lambda>x. x * x) xs))"

definition sign_product :: "float64 list \<Rightarrow> float64 list \<Rightarrow> float64" where
  "sign_product x y =
     (case (x ! 0, x ! 1, y ! 0, y ! 1) of
        (Some x0, Some x1, Some y0, Some y1) \<Rightarrow> Some (sgn (x1 - x0) * sgn (y1 - y0))
      | _ \<Rightarrow> None)"

definition pearsonr :: "float64 list \<Rightarrow> float64 list \<Rightarrow> error + float64" where
  "pearsonr x y =
     (if length x \<noteq> length y then Inl ValueError
      else if length x < 2 then Inl ValueError
      else if is_constant x \<or> is_constant y then Inr None
      else if length x = 2 then Inr (sign_product x y)
      else if count_series x < length x \<or> count_series y < length y then Inl ValueError
      else (let xm = centred (dropna x); ym = centred (dropna y);
                r = sum_list (map2 (\<lambda>a b. (a / norm2 xm) * (b / norm2 ym)) xm ym)
            in Inr (Some (max (min r 1) (- 1)))))"

record analysis_results =
  capacity_by_state :: "(string \<times> group_stats) list"
  capacity_by_facility :: "(string \<times> group_stats) list"
  capacity_units_correlation :: float64

definition perform_analysis ::
  "((float64, 'a) installation_scheme) list \<Rightarrow> error + analysis_results" where
  "perform_analysis df =
     (case pearsonr (map Number_of_Units df) (map Installed_Capacity df) of
        Inl e \<Rightarrow> Inl e
      | Inr r \<Rightarrow>
          Inr \<lparr> capacity_by_state = groupby_agg State Installed_Capacity df,
                capacity_by_facility = groupby_agg Facility Installed_Capacity df,
                capacity_units_correlation = r \<rparr>)"

section \<open>\<open>main.py\<close>: the report\<close>

text \<open>
  The report is a fixed text with eight values set into it. The model keeps the eight
  values in the order of the text: the floats as the strings that \<open>:.2f\<close> prints, the
  three tables as the rows that \<open>head(3)\<close> leaves (the column layout of \<open>to_string()\<close>
  is not modelled). \<open>sort_values(ascending=False)\<close> is taken as a stable sort.
\<close>

record report =
  total_projects_line :: nat
  states_covered_line :: nat
  total_capacity_line :: string
  top_states_by_installations :: "(string \<times> nat) list"
  most_common_facility_types :: "(string \<times> nat) list"
  average_capacity_line :: string
  correlation_line :: string
  top_states_by_capacity :: "(string \<times> real) list"

definition sort_values_desc :: "(string \<times> real) list \<Rightarrow> (string \<times> real) list" where
  "sort_values_desc s = sort_key (\<lambda>p. - snd p) s"

definition generate_report :: "stats_summary \<Rightarrow> analysis_results \<Rightarrow> report" where
  "generate_report stats_summary analysis_results =
     \<lparr> total_projects_line = total_projects stats_summary,
       states_covered_line = total_states stats_summary,
       total_capacity_line = fmt2 (Some (total_capacity stats_summary)),
       top_states_by_installations = head 3 (state_counts stats_summary),
       most_common_facility_types = head 3 (facility_counts stats_summary),
       average_capacity_line = fmt2 (avg_capacity stats_summary),
       correlation_line = fmt2 (capacity_units_correlation analysis_results),
       top_states_by_capacity =
         head 3 (sort_values_desc
                   (map (\<lambda>(k, g). (k, g_sum g)) (capacity_by_state analysis_results))) \<rparr>"

section \<open>Notions used to state the properties\<close>

text \<open>
  A sum \<open>s\<close> and a mean \<open>m\<close> are taken over the present values of a column: the sum
  adds the present values only, and the mean is their sum over their number, missing
  only when the column has no present value.
\<close>

definition over_present_values :: "float64 list \<Rightarrow> real \<Rightarrow> float64 \<Rightarrow> bool" where
  "over_present_values xs s m =
     (s = sum_list (dropna xs)
      \<and> m = (if list_all (\<lambda>x. x = None) xs then None
             else Some (sum_list (dropna xs) / real (length (dropna xs)))))"

text \<open>
  The records that have both a unit count and a capacity, as pairs; a series of zero
  variance; and the tables for which the units/capacity correlation is undefined: fewer
  than two such records, or no variance in either series over them.
\<close>

definition paired_observations ::
  "((float64, 'a) installation_scheme) list \<Rightarrow> (real \<times> real) list" where
  "paired_observations df =
     List.map_filter
       (\<lambda>r. case (Number_of_Units r, Installed_Capacity r) of
               (Some u, Some c) \<Rightarrow> Some (u, c)
             | _ \<Rightarrow> None) df"

definition zero_variance :: "real list \<Rightarrow> bool" where
  "zero_variance xs =
     (sum_list (map (\<lambda>x. (x - sum_list xs / real (length xs)) ^ 2) xs) = 0)"

definition correlation_undefined :: "((float64, 'a) installation_scheme) list \<Rightarrow> bool" where
  "correlation_undefined df =
     (length (paired_observations df) < 2
      \<or> zero_variance (map fst (paired_observations df))
      \<or> zero_variance (map snd (paired_observations df)))"



section \<open>Example tables\<close>

text \<open>Three installations, the second without a capacity.\<close>

definition df_c5 :: "turbine list" where
  "df_c5 =
     [\<lparr> Project_Name = Some ''A'', Facility = Some ''K-12 School'', State = Some ''KS'',
        Installed_Capacity = Some 1, Number_of_Units = Some 1, Turbine_ID = ''T001'' \<rparr>,
      \<lparr> Project_Name = Some ''B'', Facility = Some ''K-12 School'', State = Some ''KS'',
        Installed_Capacity = None, Number_of_Units = Some 2, Turbine_ID = ''T002'' \<rparr>,
      \<lparr> Project_Name = Some ''C'', Facility = Some ''K-12 School'', State = Some ''IA'',
        Installed_Capacity = Some 2, Number_of_Units = Some 2, Turbine_ID = ''T003'' \<rparr>]"

text \<open>A cleaned row of \<open>main.py\<close>, given by its state, capacity, unit count and
  coordinates.\<close>

definition site :: "string option \<Rightarrow> float64 \<Rightarrow> float64 \<Rightarrow> float64 \<Rightarrow> float64 \<Rightarrow> located" where
  "site st cap units lat lon =
     \<lparr> Project_Name = Some ''Wind Project'', Facility = Some ''K-12 School'', State = st,
       Installed_Capacity = cap, Number_of_Units = units, Coordinates = None,
       Latitude = lat, Longitude = lon \<rparr>"

text \<open>Two installations, the first without a state.\<close>

definition df_c7 :: "located list" where
  "df_c7 = [site None (Some 1) (Some 1) (Some 40) (Some (- 95)),
            site (Some ''KS'') (Some 2) (Some 2) (Some 39) (Some (- 98))]"

text \<open>Two installations in two states, all values present.\<close>

definition df_w7 :: "located list" where
  "df_w7 = [site (Some ''KS'') (Some 1) (Some 1) (Some 39) (Some (- 98)),
            site (Some ''IA'') (Some 2) (Some 3) (Some 42) (Some (- 93))]"

text \<open>Two installations in two states, neither with a capacity.\<close>

definition df_c6 :: "located list" where
  "df_c6 = [site (Some ''KS'') None (Some 1) (Some 39) (Some (- 98)),
            site (Some ''IA'') None (Some 2) (Some 42) (Some (- 93))]"

text \<open>Two installations in two states, the first without a capacity.\<close>

definition df_w6 :: "located list" where
  "df_w6 = [site (Some ''KS'') None (Some 1) (Some 39) (Some (- 98)),
            site (Some ''IA'') (Some 2) (Some 2) (Some 42) (Some (- 93))]"

text \<open>The analysis results of these tables.\<close>

definition a_c6 :: analysis_results where
  "a_c6 = \<lparr> capacity_by_state = [(''IA'', \<lparr> g_sum = 0, g_mean = None, g_count = 0 \<rparr>),
                                  (''KS'', \<lparr> g_sum = 0, g_mean = None, g_count = 0 \<rparr>)],
            capacity_by_facility = [(''K-12 School'', \<lparr> g_sum = 0, g_mean = None, g_count = 0 \<rparr>)],
            capacity_units_correlation = None \<rparr>"

definition a_w6 :: analysis_results where
  "a_w6 = \<lparr> capacity_by_state = [(''IA'', \<lparr> g_sum = 2, g_mean = Some 2, g_count = 1 \<rparr>),
                                  (''KS'', \<lparr> g_sum = 0, g_mean = None, g_count = 0 \<rparr>)],
            capacity_by_facility = [(''K-12 School'', \<lparr> g_sum = 2, g_mean = Some 2, g_count = 1 \<rparr>)],
            capacity_units_correlation = None \<rparr>"

definition a_c7 :: analysis_results where
  "a_c7 = \<lparr> capacity_by_state = [(''KS'', \<lparr> g_sum = 2, g_mean = Some 2, g_count = 1 \<rparr>)],
            capacity_by_facility = [(''K-12 School'', \<lparr> g_sum = 3, g_mean = Some (3 / 2), g_count = 2 \<rparr>)],
            capacity_units_correlation = Some 1 \<rparr>"

definition a_w7 :: analysis_results where
  "a_w7 = \<lparr> capacity_by_state = [(''IA'', \<lparr> g_sum = 2, g_mean = Some 2, g_count = 1 \<rparr>),
                                  (''KS'', \<lparr> g_sum = 1, g_mean = Some 1, g_count = 1 \<rparr>)],
            capacity_by_facility = [(''K-12 School'', \<lparr> g_sum = 3, g_mean = Some (3 / 2), g_count = 2 \<rparr>)],
            capacity_units_correlation = Some 1 \<rparr>"

text \<open>Two installations, the second without a longitude.\<close>

definition df_c2 :: "located list" where
  "df_c2 = [site (Some ''KS'') (Some 1) (Some 1) (Some 40) (Some (- 95)),
            site (Some ''KS'') (Some 2) (Some 2) (Some 41) None]"

definition m_w7 :: folium_map where
  "m_w7 = \<lparr> centre = (81 / 2, - (191 / 2)), zoom_start = 4,
            markers = [\<lparr> location = (39, - 98), popup_project = Some ''Wind Project'',
                         popup_facility = Some ''K-12 School'', popup_capacity = Some 1 \<rparr>,
                       \<lparr> location = (42, - 93), popup_project = Some ''Wind Project'',
                         popup_facility = Some ''K-12 School'', popup_capacity = Some 2 \<rparr>] \<rparr>"










text \<open>A single installation; and two installations of equal capacity.\<close>

definition df_c1 :: "located list" where
  "df_c1 = [site (Some ''KS'') (Some 2) (Some 1) (Some 39) (Some (- 98))]"

definition df_w1 :: "located list" where
  "df_w1 = [site (Some ''KS'') (Some 2) (Some 1) (Some 39) (Some (- 98)),
            site (Some ''IA'') (Some 2) (Some 3) (Some 42) (Some (- 93))]"

definition a_w1 :: analysis_results where
  "a_w1 = \<lparr> capacity_by_state = [(''IA'', \<lparr> g_sum = 2, g_mean = Some 2, g_count = 1 \<rparr>),
                                  (''KS'', \<lparr> g_sum = 2, g_mean = Some 2, g_count = 1 \<rparr>)],
            capacity_by_facility = [(''K-12 School'', \<lparr> g_sum = 4, g_mean = Some 2, g_count = 2 \<rparr>)],
            capacity_units_correlation = None \<rparr>"




section \<open>Properties of the column reductions\<close>

lemma length_dropna_le: "length (dropna xs) \<le> length xs"
  by (induction xs rule: dropna.induct) auto

lemma length_dropna_less: "None \<in> set xs \<Longrightarrow> length (dropna xs) < length xs"
proof (induction xs rule: dropna.induct)
  case 1
  then show ?case by simp
next
  case (2 xs)
  have "length (dropna xs) \<le> length xs" by (rule length_dropna_le)
  then show ?case by simp
next
  case (3 x xs)
  then show ?case by simp
qed


lemma dropna_empty_iff: "dropna xs = [] \<longleftrightarrow> (\<forall>x \<in> set xs. x = None)"
  by (induction xs rule: dropna.induct) auto

lemma dropna_append: "dropna (xs @ ys) = dropna xs @ dropna ys"
  by (induction xs rule: dropna.induct) auto

lemma dropna_map_Some: "dropna (map Some xs) = xs"
  by (induction xs) auto

lemma sum_series_Cons:
  "sum_series (x # xs) = (case x of None \<Rightarrow> 0 | Some c \<Rightarrow> c) + sum_series xs"
  by (cases x) (simp_all add: sum_series_def)

lemma sum_series_append: "sum_series (xs @ ys) = sum_series xs + sum_series ys"
  by (simp add: sum_series_def dropna_append)

lemma count_series_append: "count_series (xs @ ys) = count_series xs + count_series ys"
  by (simp add: count_series_def dropna_append)

lemma mean_series_None_iff: "mean_series xs = None \<longleftrightarrow> (\<forall>x \<in> set xs. x = None)"
  by (simp add: mean_series_def count_series_def dropna_empty_iff)

lemma sum_list_delta:
  "distinct ks \<Longrightarrow> s \<in> set ks \<Longrightarrow> (\<Sum>k\<leftarrow>ks. if s = k then c else (0::real)) = c"
proof (induction ks)
  case Nil
  then show ?case by simp
next
  case (Cons k ks)
  show ?case
  proof (cases "s = k")
    case True
    with Cons.prems have "s \<notin> set ks" by simp
    then have "(\<Sum>k\<leftarrow>ks. if s = k then c else (0::real)) = 0"
      by (induction ks) auto
    with True show ?thesis by simp
  next
    case False
    with Cons show ?thesis by simp
  qed
qed

lemma group_rows_Cons:
  "group_rows key k (r # df) = (if key r = Some k then r # group_rows key k df else group_rows key k df)"
  by (simp add: group_rows_def)

lemma group_sums_over:
  "distinct ks \<Longrightarrow> set (dropna (map key df)) \<subseteq> set ks \<Longrightarrow>
   (\<Sum>k\<leftarrow>ks. sum_series (map col (group_rows key k df)))
     = sum_series (map col (filter (\<lambda>r. key r \<noteq> None) df))"
proof (induction df)
  case Nil
  then show ?case by (simp add: group_rows_def sum_series_def)
next
  case (Cons r df)
  show ?case
  proof (cases "key r")
    case None
    with Cons show ?thesis by (simp add: group_rows_Cons)
  next
    case (Some s)
    with Cons.prems have s: "s \<in> set ks" and sub: "set (dropna (map key df)) \<subseteq> set ks"
      by simp_all
    let ?v = "case col r of None \<Rightarrow> 0 | Some c \<Rightarrow> c"
    have "(\<Sum>k\<leftarrow>ks. sum_series (map col (group_rows key k (r # df))))
        = (\<Sum>k\<leftarrow>ks. (if s = k then ?v else 0) + sum_series (map col (group_rows key k df)))"
      using Some by (intro arg_cong [where f = sum_list] map_cong refl)
        (simp add: group_rows_Cons sum_series_Cons)
    also have "\<dots> = (\<Sum>k\<leftarrow>ks. if s = k then ?v else 0)
        + (\<Sum>k\<leftarrow>ks. sum_series (map col (group_rows key k df)))"
      by (simp add: sum_list_addf)
    also have "\<dots> = ?v + sum_series (map col (filter (\<lambda>r. key r \<noteq> None) df))"
      using Cons.IH [OF Cons.prems(1) sub] sum_list_delta [OF Cons.prems(1) s] by simp
    finally show ?thesis using Some by (simp add: sum_series_Cons)
  qed
qed

lemma group_keys_props: "distinct (group_keys key df)" "set (group_keys key df) = set (dropna (map key df))"
  by (simp_all add: group_keys_def)

lemma groupby_sums_total:
  "(\<Sum>p\<leftarrow>groupby_agg key col df. g_sum (snd p))
     = sum_series (map col (filter (\<lambda>r. key r \<noteq> None) df))"
proof -
  have "(\<Sum>p\<leftarrow>groupby_agg key col df. g_sum (snd p))
      = (\<Sum>k\<leftarrow>group_keys key df. sum_series (map col (group_rows key k df)))"
    by (simp add: groupby_agg_def agg_def comp_def)
  also have "\<dots> = sum_series (map col (filter (\<lambda>r. key r \<noteq> None) df))"
    by (rule group_sums_over) (simp_all add: group_keys_props)
  finally show ?thesis .
qed

lemma sum_series_filter_present:
  "(\<forall>r \<in> set df. col r \<noteq> None \<longrightarrow> key r \<noteq> None) \<Longrightarrow>
   sum_series (map col (filter (\<lambda>r. key r \<noteq> None) df)) = sum_series (map col df)"
proof (induction df)
  case Nil
  then show ?case by simp
next
  case (Cons r df)
  then show ?case by (cases "col r") (auto simp: sum_series_Cons)
qed






lemma over_present_values_series: "over_present_values xs (sum_series xs) (mean_series xs)"
  by (simp add: over_present_values_def sum_series_def mean_series_def count_series_def
      dropna_empty_iff list_all_iff)

lemma groupby_agg_entry:
  "(k, g) \<in> set (groupby_agg key col df) \<Longrightarrow> g = agg (map col (group_rows key k df))"
  by (auto simp: groupby_agg_def)

lemma perform_analysis_Inr:
  "perform_analysis df = Inr a \<Longrightarrow>
   capacity_by_state a = groupby_agg State Installed_Capacity df
   \<and> capacity_by_facility a = groupby_agg Facility Installed_Capacity df"
  by (auto simp: perform_analysis_def split: sum.splits)

text \<open>The analyses of the example tables, evaluated.\<close>

lemma sort_KS_IA: "sort [''KS'', ''IA''] = [''IA'', ''KS'']"
  by code_simp

lemmas analysis_eval =
  site_def perform_analysis_def pearsonr_def is_constant_def sign_product_def
  groupby_agg_def group_keys_def group_rows_def agg_def sum_series_def mean_series_def
  count_series_def sort_KS_IA

lemma perform_analysis_df_c6: "perform_analysis df_c6 = Inr a_c6"
  by (simp add: df_c6_def a_c6_def analysis_eval)

lemma perform_analysis_df_w6: "perform_analysis df_w6 = Inr a_w6"
  by (simp add: df_w6_def a_w6_def analysis_eval)

lemma perform_analysis_df_c7: "perform_analysis df_c7 = Inr a_c7"
  by (simp add: df_c7_def a_c7_def analysis_eval)

lemma perform_analysis_df_w7: "perform_analysis df_w7 = Inr a_w7"
  by (simp add: df_w7_def a_w7_def analysis_eval)

lemma sequence_map_Inr: "sequence (map Inr vs) = Inr vs"
  by (induction vs) simp_all

lemma sequence_Inr_D: "sequence rs = Inr vs \<Longrightarrow> rs = map Inr vs"
  by (induction rs arbitrary: vs rule: sequence.induct) (auto split: sum.splits)

lemma sequence_Inr_iff: "sequence rs = Inr vs \<longleftrightarrow> rs = map Inr vs"
  using sequence_map_Inr sequence_Inr_D by metis


lemma sequence_cases: "(\<exists>e. sequence rs = Inl e) \<or> (\<exists>vs. sequence rs = Inr vs)"
  by (cases "sequence rs") auto

subsection \<open>The map\<close>

lemma add_markers_Inr:
  "add_markers df = Inr ms \<Longrightarrow>
   map (\<lambda>m. (Some (fst (location m)), Some (snd (location m)))) ms
     = map (\<lambda>r. (Latitude r, Longitude r)) df
   \<and> map popup_project ms = map Project_Name df
   \<and> map popup_facility ms = map Facility df
   \<and> map popup_capacity ms = map Installed_Capacity df"
proof (induction df arbitrary: ms)
  case Nil
  then show ?case by simp
next
  case (Cons r df)
  from Cons.prems obtain m ms' where m: "circle_marker r = Inr m"
    and ms': "add_markers df = Inr ms'" and ms: "ms = m # ms'"
    by (auto split: sum.splits)
  from m have "(Some (fst (location m)), Some (snd (location m))) = (Latitude r, Longitude r)
      \<and> popup_project m = Project_Name r \<and> popup_facility m = Facility r
      \<and> popup_capacity m = Installed_Capacity r"
    by (auto simp: circle_marker_def validate_location_def split: option.splits sum.splits)
  with Cons.IH [OF ms'] ms show ?case by simp
qed

lemma add_markers_total:
  "\<forall>r \<in> set df. Latitude r \<noteq> None \<and> Longitude r \<noteq> None \<Longrightarrow> \<exists>ms. add_markers df = Inr ms"
proof (induction df)
  case Nil
  then show ?case by simp
next
  case (Cons r df)
  then obtain ms where "add_markers df = Inr ms" by auto
  moreover from Cons.prems obtain la lo where "Latitude r = Some la" "Longitude r = Some lo"
    by auto
  ultimately show ?case by (simp add: circle_marker_def validate_location_def)
qed

lemma mean_series_present:
  "xs \<noteq> [] \<Longrightarrow> \<forall>x \<in> set xs. x \<noteq> None \<Longrightarrow> \<exists>v. mean_series xs = Some v"
  using mean_series_None_iff [of xs] by (cases "mean_series xs") (auto simp: neq_Nil_conv)

lemma create_map_df_w7: "create_map df_w7 = Inr m_w7"
  by (simp add: df_w7_def m_w7_def site_def create_map_def validate_location_def
      mean_series_def sum_series_def count_series_def circle_marker_def)

subsection \<open>Cleaning\<close>









subsection \<open>The correlation\<close>

lemma present_series: "None \<notin> set xs \<Longrightarrow> xs = map Some (dropna xs)"
  by (induction xs rule: dropna.induct) auto

lemma sign_product_None:
  assumes "length x = 2" and "length y = 2" and "None \<in> set x \<or> None \<in> set y"
  shows "sign_product x y = None"
proof -
  from assms(1) obtain x0 x1 where x: "x = [x0, x1]"
    by (cases x; cases "tl x") auto
  from assms(2) obtain y0 y1 where y: "y = [y0, y1]"
    by (cases y; cases "tl y") auto
  from assms(3) x y show ?thesis
    by (auto simp: sign_product_def split: option.splits)
qed

lemma pearsonr_nan:
  assumes "None \<in> set x \<or> None \<in> set y"
  shows "(\<exists>e. pearsonr x y = Inl e) \<or> pearsonr x y = Inr None"
proof (cases "length x \<noteq> length y \<or> length x < 2 \<or> is_constant x \<or> is_constant y")
  case True
  then show ?thesis by (auto simp: pearsonr_def)
next
  case False
  show ?thesis
  proof (cases "length x = 2")
    case True
    with False assms have "sign_product x y = None" by (intro sign_product_None) auto
    with False True show ?thesis by (simp add: pearsonr_def)
  next
    case False
    from assms have "count_series x < length x \<or> count_series y < length y"
      unfolding count_series_def using length_dropna_less by blast
    with False \<open>\<not> (length x \<noteq> length y \<or> length x < 2 \<or> is_constant x \<or> is_constant y)\<close>
    show ?thesis by (simp add: pearsonr_def)
  qed
qed

lemma zero_variance_constant:
  assumes "zero_variance xs" and "xs \<noteq> []"
  shows "is_constant (map Some xs)"
proof -
  let ?m = "sum_list xs / real (length xs)"
  have "\<forall>v \<in> set (map (\<lambda>x. (x - ?m) ^ 2) xs). 0 \<le> v" by auto
  then have "\<forall>v \<in> set (map (\<lambda>x. (x - ?m) ^ 2) xs). v = 0"
    using assms(1) sum_list_nonneg_eq_0_iff unfolding zero_variance_def by blast
  then have all: "\<forall>x \<in> set xs. x = ?m" by auto
  from assms(2) obtain x0 xs' where xs: "xs = x0 # xs'" by (cases xs) auto
  with all have "\<forall>x \<in> set xs. x = x0" by (metis list.set_intros(1))
  with xs show ?thesis by (auto simp: is_constant_def list_all_iff)
qed

lemma paired_all_present:
  "\<forall>r \<in> set df. Number_of_Units r \<noteq> None \<and> Installed_Capacity r \<noteq> None \<Longrightarrow>
   map fst (paired_observations df) = dropna (map Number_of_Units df)
   \<and> map snd (paired_observations df) = dropna (map Installed_Capacity df)"
  by (induction df) (auto simp: paired_observations_def List.map_filter_simps)

lemma pearsonr_undefined:
  assumes "correlation_undefined df"
  shows "(\<exists>e. pearsonr (map Number_of_Units df) (map Installed_Capacity df) = Inl e)
       \<or> pearsonr (map Number_of_Units df) (map Installed_Capacity df) = Inr None"
proof (cases "None \<in> set (map Number_of_Units df) \<or> None \<in> set (map Installed_Capacity df)")
  case True
  then show ?thesis by (rule pearsonr_nan)
next
  case False
  let ?x = "map Number_of_Units df" and ?y = "map Installed_Capacity df"
  from False have all: "\<forall>r \<in> set df. Number_of_Units r \<noteq> None \<and> Installed_Capacity r \<noteq> None"
    by force
  from False have x: "?x = map Some (dropna ?x)" and y: "?y = map Some (dropna ?y)"
    using present_series by blast+
  from paired_all_present [OF all]
  have px: "map fst (paired_observations df) = dropna ?x"
    and py: "map snd (paired_observations df) = dropna ?y" by simp_all
  have len: "length (paired_observations df) = length df"
    using px x by (metis length_map)
  show ?thesis
  proof (cases "length df < 2")
    case True
    then show ?thesis by (simp add: pearsonr_def)
  next
    case False
    then have "df \<noteq> []" by auto
    then have "?x \<noteq> []" "?y \<noteq> []" by simp_all
    then have ne: "dropna ?x \<noteq> []" "dropna ?y \<noteq> []"
      using x y by (metis list.map_disc_iff)+
    from assms False len have "zero_variance (dropna ?x) \<or> zero_variance (dropna ?y)"
      by (simp add: correlation_undefined_def px py)
    then have "is_constant ?x \<or> is_constant ?y"
      using zero_variance_constant ne x y by metis
    with False show ?thesis by (simp add: pearsonr_def)
  qed
qed

lemma perform_analysis_df_w1: "perform_analysis df_w1 = Inr a_w1"
  by (simp add: df_w1_def a_w1_def analysis_eval list_all_iff)

lemma correlation_undefined_df_w1: "correlation_undefined df_w1"
  by (simp add: correlation_undefined_def paired_observations_def List.map_filter_simps
      zero_variance_def df_w1_def site_def)

subsection \<open>A record whose capacity cannot be read\<close>














section \<open>The summary of the literal table\<close>

text \<open>
  Claim C4, as amended. For the eight-record table of \<open>script.py\<close> the summary holds
  8 projects and 5 distinct states; the total capacity is 9.194434, printed as 9.19, and
  the average capacity is 1.14930425, printed as 1.15.
\<close>

theorem script_summary_values:
  "printed_summary (analyze_wind_data df_script) = (8, 5, ''9.19'', ''1.15'')
   \<and> Total_Capacity (analyze_wind_data df_script) = 9194434 / 1000000
   \<and> Average_Capacity (analyze_wind_data df_script) = Some (9194434 / 8000000)"
  by code_simp

text \<open>
  Claim C4 as stated gives the total capacity as about 9.22: neither is that what the
  script prints, nor is the total within a hundredth of it.
\<close>

theorem script_total_capacity_not_9_22:
  "fmt2 (Some (Total_Capacity (analyze_wind_data df_script))) \<noteq> ''9.22''
   \<and> \<not> \<bar>Total_Capacity (analyze_wind_data df_script) - 922 / 100\<bar> \<le> 1 / 100"
  by code_simp

section \<open>Mean capacity\<close>

text \<open>
  Claim C5. In a table with at least one missing capacity value, the present values are
  fewer than the records, and the mean capacity of the summary is the total capacity
  divided by the number of present values. When no value at all is present that number
  is zero and the mean is NaN.
\<close>

theorem mean_divides_by_present_count:
  assumes "\<exists>r \<in> set df. Installed_Capacity r = None"
  shows "count_series (map Installed_Capacity df) < total_projects (generate_statistical_summary df)
    \<and> (0 < count_series (map Installed_Capacity df) \<longrightarrow>
         avg_capacity (generate_statistical_summary df) =
           Some (total_capacity (generate_statistical_summary df)
                 / real (count_series (map Installed_Capacity df))))
    \<and> (count_series (map Installed_Capacity df) = 0 \<longrightarrow>
         avg_capacity (generate_statistical_summary df) = None)"
proof -
  from assms have "None \<in> set (map Installed_Capacity df)" by force
  then have "length (dropna (map Installed_Capacity df)) < length (map Installed_Capacity df)"
    by (rule length_dropna_less)
  then show ?thesis
    by (simp add: generate_statistical_summary_def count_series_def mean_series_def)
qed

theorem mean_divides_by_present_count_witness:
  "(\<exists>r \<in> set df_c5. Installed_Capacity r = None)
   \<and> count_series (map Installed_Capacity df_c5) = 2
   \<and> total_projects (generate_statistical_summary df_c5) = 3
   \<and> total_capacity (generate_statistical_summary df_c5) = 3
   \<and> avg_capacity (generate_statistical_summary df_c5) = Some (3 / 2)"
proof -
  have h: "\<exists>r \<in> set df_c5. Installed_Capacity r = None"
    by (simp add: df_c5_def)
  have c: "count_series (map Installed_Capacity df_c5) = 2"
    by (simp add: df_c5_def count_series_def)
  have t: "total_capacity (generate_statistical_summary df_c5) = 3"
    by (simp add: df_c5_def generate_statistical_summary_def sum_series_def)
  from mean_divides_by_present_count [OF h] c t
  have "avg_capacity (generate_statistical_summary df_c5) = Some (3 / 2)" by simp
  with h c t show ?thesis
    by (simp add: generate_statistical_summary_def df_c5_def)
qed

section \<open>The top-3 lists of the report\<close>


section \<open>State sums and the total capacity\<close>

text \<open>
  Claim C7, as amended. For every cleaned table the analysis accepts in which every
  record with a capacity has a state, the capacity sums of the state groups add up to
  the total capacity of the summary.
\<close>

theorem state_sums_add_up:
  assumes "perform_analysis df = Inr a"
    and "\<forall>r \<in> set df. Installed_Capacity r \<noteq> None \<longrightarrow> State r \<noteq> None"
  shows "(\<Sum>p\<leftarrow>capacity_by_state a. g_sum (snd p))
           = total_capacity (generate_statistical_summary df)"
proof -
  from assms(1) have "capacity_by_state a = groupby_agg State Installed_Capacity df"
    by (simp add: perform_analysis_Inr)
  then have "(\<Sum>p\<leftarrow>capacity_by_state a. g_sum (snd p))
      = sum_series (map Installed_Capacity (filter (\<lambda>r. State r \<noteq> None) df))"
    by (simp add: groupby_sums_total)
  also have "\<dots> = sum_series (map Installed_Capacity df)"
    using assms(2) by (rule sum_series_filter_present)
  finally show ?thesis by (simp add: generate_statistical_summary_def)
qed

theorem state_sums_add_up_witness:
  "perform_analysis df_w7 = Inr a_w7
   \<and> (\<Sum>p\<leftarrow>capacity_by_state a_w7. g_sum (snd p)) = 3
   \<and> total_capacity (generate_statistical_summary df_w7) = 3"
proof -
  have h: "\<forall>r \<in> set df_w7. Installed_Capacity r \<noteq> None \<longrightarrow> State r \<noteq> None"
    by (simp add: df_w7_def site_def)
  have s: "(\<Sum>p\<leftarrow>capacity_by_state a_w7. g_sum (snd p)) = 3"
    by (simp add: a_w7_def)
  from state_sums_add_up [OF perform_analysis_df_w7 h] s perform_analysis_df_w7
  show ?thesis by simp
qed

text \<open>
  Claim C7 as stated holds for every cleaned table. A record without a state belongs to
  no state group: in a table of two installations with capacities 1 and 2, the first
  without a state, the state sums add up to 2 and the total capacity is 3.
\<close>

theorem state_sums_miss_record_without_state:
  "perform_analysis df_c7 = Inr a_c7
   \<and> (\<Sum>p\<leftarrow>capacity_by_state a_c7. g_sum (snd p)) = 2
   \<and> total_capacity (generate_statistical_summary df_c7) = 3"
  by (simp add: perform_analysis_df_c7)
    (simp add: a_c7_def df_c7_def site_def generate_statistical_summary_def sum_series_def)

section \<open>The markers of the map\<close>

text \<open>
  Claim C2, as amended. Whenever the map renderer returns a map, the map has exactly one
  marker per record of the table, in table order, each at the record's latitude and
  longitude and with the record's project name, facility type and capacity: no record is
  left out. The renderer returns a map for every non-empty table whose records all have
  a latitude and a longitude.
\<close>

theorem create_map_one_marker_per_record:
  "(create_map df = Inr m \<longrightarrow>
      map (\<lambda>k. (Some (fst (location k)), Some (snd (location k)))) (markers m)
        = map (\<lambda>r. (Latitude r, Longitude r)) df
      \<and> map popup_project (markers m) = map Project_Name df
      \<and> map popup_facility (markers m) = map Facility df
      \<and> map popup_capacity (markers m) = map Installed_Capacity df)
   \<and> (df \<noteq> [] \<and> (\<forall>r \<in> set df. Latitude r \<noteq> None \<and> Longitude r \<noteq> None) \<longrightarrow>
        (\<exists>m'. create_map df = Inr m'))"
proof -
  have one: "map (\<lambda>k. (Some (fst (location k)), Some (snd (location k)))) (markers m)
        = map (\<lambda>r. (Latitude r, Longitude r)) df
      \<and> map popup_project (markers m) = map Project_Name df
      \<and> map popup_facility (markers m) = map Facility df
      \<and> map popup_capacity (markers m) = map Installed_Capacity df"
    if "create_map df = Inr m"
  proof -
    from that have "add_markers df = Inr (markers m)"
      by (auto simp: create_map_def split: sum.splits)
    then show ?thesis by (rule add_markers_Inr)
  qed
  have total: "\<exists>m'. create_map df = Inr m'"
    if a: "df \<noteq> [] \<and> (\<forall>r \<in> set df. Latitude r \<noteq> None \<and> Longitude r \<noteq> None)"
  proof -
    from a obtain ms where ms: "add_markers df = Inr ms"
      using add_markers_total [of df] by auto
    from a obtain la where la: "mean_series (map Latitude df) = Some la"
      using mean_series_present [of "map Latitude df"] by auto
    from a obtain lo where lo: "mean_series (map Longitude df) = Some lo"
      using mean_series_present [of "map Longitude df"] by auto
    from ms la lo show ?thesis
      by (simp add: create_map_def validate_location_def)
  qed
  from one total show ?thesis by blast
qed

text \<open>
  The renderer on a table of two located installations.
\<close>

theorem create_map_one_marker_per_record_witness:
  "create_map df_w7 = Inr m_w7
   \<and> map location (markers m_w7) = [(39, - 98), (42, - 93)]
   \<and> length (markers m_w7) = length df_w7"
proof -
  have "map popup_project (markers m_w7) = map Project_Name df_w7"
    using create_map_one_marker_per_record [of df_w7 m_w7] create_map_df_w7 by simp
  then have "length (markers m_w7) = length df_w7"
    by (rule map_eq_imp_length_eq)
  with create_map_df_w7 show ?thesis by (simp add: m_w7_def)
qed

text \<open>
  Claim C2 as stated excludes a record with a missing coordinate and renders the rest.
  The loop of \<open>create_map\<close> constructs a marker for every row; for a table of two
  records, the second without a longitude, the marker of the second row raises
  ValueError and no map is returned.
\<close>

theorem create_map_aborts_on_missing_longitude:
  "create_map df_c2 = Inl ValueError \<and> length df_c2 = 2
   \<and> map (\<lambda>r. (Latitude r, Longitude r)) df_c2 = [(Some 40, Some (- 95)), (Some 41, None)]"
  by (simp add: df_c2_def site_def create_map_def validate_location_def
      mean_series_def sum_series_def count_series_def circle_marker_def)

section \<open>Structural failures of cleaning\<close>




section \<open>The undefined correlation\<close>

text \<open>
  Claim C1, as amended. For every table in which fewer than two records have both a
  capacity and a unit count, or in which the unit counts or the capacities of these
  records have zero variance, the analysis either raises an exception, so that no report
  is generated, or returns NaN for the correlation, which the report prints as \<open>nan\<close>.
  In neither case is a number printed for the correlation.
\<close>

theorem undefined_correlation_not_a_number:
  assumes "correlation_undefined df"
  shows "(\<exists>e. perform_analysis df = Inl e)
    \<or> (\<exists>a. perform_analysis df = Inr a \<and> capacity_units_correlation a = None
            \<and> correlation_line (generate_report (generate_statistical_summary df) a) = ''nan'')"
  using pearsonr_undefined [OF assms]
  by (auto simp: perform_analysis_def generate_report_def fmt2_def)

text \<open>
  Two installations of equal capacity: the report prints \<open>nan\<close>.
\<close>

theorem undefined_correlation_not_a_number_witness:
  "correlation_undefined df_w1 \<and> perform_analysis df_w1 = Inr a_w1
   \<and> correlation_line (generate_report (generate_statistical_summary df_w1) a_w1) = ''nan''"
  using undefined_correlation_not_a_number [OF correlation_undefined_df_w1]
    perform_analysis_df_w1 correlation_undefined_df_w1
  by simp

text \<open>
  Claim C1 as stated has the generated report state that the correlation is undefined.
  For a table of a single record \<open>pearsonr\<close> raises ValueError: the analysis returns
  no results and no report is generated from them.
\<close>

theorem no_report_for_single_record:
  "correlation_undefined df_c1 \<and> perform_analysis df_c1 = Inl ValueError"
  by (simp add: correlation_undefined_def paired_observations_def List.map_filter_simps
      df_c1_def site_def perform_analysis_def pearsonr_def)

section \<open>Splitting the coordinates\<close>



section \<open>Sums and means over missing capacities\<close>

text \<open>
  Claim C6, as amended. For every table, the total and the mean capacity of the summary
  and, when the analysis returns, the sum and the mean of every state group and of every
  facility group are taken over the present capacity values only. A sum is never
  missing; a mean is missing exactly when its table or group has no present capacity
  value.
\<close>

theorem aggregates_over_present_values:
  "over_present_values (map Installed_Capacity df)
     (total_capacity (generate_statistical_summary df))
     (avg_capacity (generate_statistical_summary df))
   \<and> (perform_analysis df = Inr a \<longrightarrow>
        (\<forall>(k, g) \<in> set (capacity_by_state a).
           over_present_values (map Installed_Capacity (group_rows State k df)) (g_sum g) (g_mean g))
        \<and> (\<forall>(k, g) \<in> set (capacity_by_facility a).
           over_present_values (map Installed_Capacity (group_rows Facility k df)) (g_sum g) (g_mean g)))"
proof -
  have summary: "over_present_values (map Installed_Capacity df)
           (total_capacity (generate_statistical_summary df))
           (avg_capacity (generate_statistical_summary df))"
    by (simp add: generate_statistical_summary_def over_present_values_series)
  have groups: "over_present_values (map col (group_rows key k df)) (g_sum g) (g_mean g)"
    if "(k, g) \<in> set (groupby_agg key col df)"
    for key :: "(float64, 'a) installation_scheme \<Rightarrow> string option" and col k g
  proof -
    from that have "g = agg (map col (group_rows key k df))" by (rule groupby_agg_entry)
    then show ?thesis by (simp add: agg_def over_present_values_series)
  qed
  from perform_analysis_Inr [of df a] summary groups show ?thesis by auto
qed

text \<open>
  Two installations in two states, the first without a capacity.
\<close>

theorem aggregates_over_present_values_witness:
  "perform_analysis df_w6 = Inr a_w6
   \<and> over_present_values (map Installed_Capacity df_w6) 2 (Some 2)
   \<and> over_present_values (map Installed_Capacity (group_rows State ''IA'' df_w6)) 2 (Some 2)
   \<and> over_present_values (map Installed_Capacity (group_rows State ''KS'' df_w6)) 0 None
   \<and> over_present_values (map Installed_Capacity (group_rows Facility ''K-12 School'' df_w6))
        2 (Some 2)"
proof -
  have s: "total_capacity (generate_statistical_summary df_w6) = 2"
    "avg_capacity (generate_statistical_summary df_w6) = Some 2"
    by (simp_all add: df_w6_def site_def generate_statistical_summary_def sum_series_def
        mean_series_def count_series_def)
  have a: "capacity_by_state a_w6 = [(''IA'', \<lparr> g_sum = 2, g_mean = Some 2, g_count = 1 \<rparr>),
                                     (''KS'', \<lparr> g_sum = 0, g_mean = None, g_count = 0 \<rparr>)]"
    "capacity_by_facility a_w6 = [(''K-12 School'', \<lparr> g_sum = 2, g_mean = Some 2, g_count = 1 \<rparr>)]"
    by (simp_all add: a_w6_def)
  from aggregates_over_present_values [of df_w6 a_w6] perform_analysis_df_w6
  show ?thesis unfolding s a by simp
qed

text \<open>
  Claim C6 as stated lets no missing marker reach the summary. In a table of two
  installations without a capacity, the mean capacity of the summary is NaN, and so is
  the mean of each state group.
\<close>

theorem mean_of_missing_capacities_is_missing:
  "avg_capacity (generate_statistical_summary df_c6) = None
   \<and> perform_analysis df_c6 = Inr a_c6
   \<and> map (\<lambda>p. g_mean (snd p)) (capacity_by_state a_c6) = [None, None]"
  by (simp add: perform_analysis_df_c6)
    (simp add: df_c6_def site_def a_c6_def generate_statistical_summary_def mean_series_def
      count_series_def)

section \<open>A record whose capacity cannot be read\<close>




end
